theory Spec2Isabelle
  imports Complex_Main "HOL-Library.Word"
begin

section \<open>URL Health Monitor: the dashboard's data and request logic (src/App.js)\<close>

subsection \<open>JavaScript strings\<close>

text \<open>
  A JavaScript string is a sequence of 16-bit UTF-16 code units. \<open>lit\<close> turns an ASCII
  literal of the source into that sequence.
\<close>

type_synonym jsstring = "16 word list"

definition lit :: "string \<Rightarrow> jsstring" where
  "lit s = map of_char s"

text \<open>
  \<^verbatim>\<open>String.prototype.trim\<close> strips, from both ends, the code units that ECMAScript calls
  WhiteSpace (TAB, VT, FF, SP, NBSP, ZWNBSP and the Unicode space separators) or
  LineTerminator (LF, CR, LS, PS).
\<close>

definition isWhiteSpace :: "16 word \<Rightarrow> bool" where
  "isWhiteSpace c \<longleftrightarrow>
     c \<in> set [0x0009, 0x000A, 0x000B, 0x000C, 0x000D, 0x0020, 0x00A0, 0x1680,
               0x2028, 0x2029, 0x202F, 0x205F, 0x3000, 0xFEFF]
     \<or> (0x2000 \<le> c \<and> c \<le> 0x200A)"

definition trim :: "jsstring \<Rightarrow> jsstring" where
  "trim s = rev (dropWhile isWhiteSpace (rev (dropWhile isWhiteSpace s)))"

text \<open>
  \<^verbatim>\<open>s.split(sep)\<close> for a separator of one code unit: the pieces between the separators,
  so the empty string gives one empty piece and a trailing separator a last empty piece.
\<close>

fun split_on :: "16 word \<Rightarrow> jsstring \<Rightarrow> jsstring list" where
  "split_on sep [] = [[]]"
| "split_on sep (c # cs) =
     (if c = sep then [] # split_on sep cs
      else (case split_on sep cs of [] \<Rightarrow> [[c]] | l # ls \<Rightarrow> (c # l) # ls))"

text \<open>A non-negative integer in a template literal: its decimal digits.\<close>

fun decimal :: "nat \<Rightarrow> jsstring" where
  "decimal n =
     (if n < 10 then [of_nat (48 + n)]
      else decimal (n div 10) @ [of_nat (48 + n mod 10)])"

declare decimal.simps [simp del]

subsection \<open>The data the dashboard holds\<close>

text \<open>
  A row of the check and history responses. A JSON number is held as the rational it
  denotes; a field that is \<^verbatim>\<open>null\<close> or missing is \<open>None\<close>.
\<close>

record check_record =
  url :: jsstring
  status :: jsstring
  status_code :: "int option"
  response_time :: "rat option"
  checked_at :: jsstring

record metrics_summary =
  m_url :: jsstring
  total_checks :: nat
  up_count :: nat
  up_percent :: rat
  error_count :: nat
  error_rate :: rat

record monitor_status =
  last_run :: "jsstring option"
  next_run :: "jsstring option"
  email_alerts :: bool

text \<open>The component's \<^verbatim>\<open>useState\<close> cells.\<close>

record app_state =
  urls :: jsstring
  results :: "check_record list"
  history :: "check_record list"
  metrics :: "metrics_summary list"
  loading :: bool
  showHistory :: bool
  selectedUrl :: jsstring
  trendData :: "check_record list"
  monitorStatus :: monitor_status
  manualCheckLoading :: bool

definition initialMonitorStatus :: monitor_status where
  "initialMonitorStatus = \<lparr>last_run = None, next_run = None, email_alerts = False\<rparr>"

definition initialState :: app_state where
  "initialState =
     \<lparr>urls = [], results = [], history = [], metrics = [], loading = False,
      showHistory = False, selectedUrl = [], trendData = [],
      monitorStatus = initialMonitorStatus, manualCheckLoading = False\<rparr>"

subsection \<open>Effects and replies\<close>

text \<open>
  What a handler does to the outside: an \<^verbatim>\<open>alert\<close> box, an \<^verbatim>\<open>axios.post\<close> of a url list,
  an \<^verbatim>\<open>axios.get\<close>. The trace lists them in the order they happen.
\<close>

datatype effect =
  Alert jsstring
| Post jsstring "jsstring list"
| Get jsstring

text \<open>
  How an axios promise settles: resolved with the response data, or rejected with an
  error that carries a response (status and the text \<^verbatim>\<open>JSON.stringify\<close> gives for its
  body), only a request, or neither (then its message).
\<close>

datatype 'a reply =
  Resolved 'a
| ErrorResponse nat jsstring
| NoResponse
| SetupError jsstring

datatype settle = Fulfilled | Rejected

text \<open>
  The result of running an async handler to the end: the state cells, the trace and how
  the handler's own promise settled.
\<close>

record outcome =
  ui :: app_state
  trace :: "effect list"
  settled :: settle

definition API_BASE :: jsstring where
  "API_BASE = lit ''http://localhost:8000''"

subsection \<open>Fetching history and metrics\<close>

text \<open>
  \<^verbatim>\<open>fetchHistory\<close> and \<^verbatim>\<open>fetchMetrics\<close> issue one GET and store the data of a resolved
  reply; a rejected reply is not caught, so the cell keeps its value and the handler's
  promise is rejected.
\<close>

definition fetchHistory :: "app_state \<Rightarrow> check_record list reply \<Rightarrow> outcome" where
  "fetchHistory st r =
     (case r of
        Resolved d \<Rightarrow>
          \<lparr>ui = st\<lparr>history := d\<rparr>,
           trace = [Get (API_BASE @ lit ''/history?limit=20'')], settled = Fulfilled\<rparr>
      | _ \<Rightarrow>
          \<lparr>ui = st,
           trace = [Get (API_BASE @ lit ''/history?limit=20'')], settled = Rejected\<rparr>)"

definition fetchMetrics :: "app_state \<Rightarrow> metrics_summary list reply \<Rightarrow> outcome" where
  "fetchMetrics st r =
     (case r of
        Resolved d \<Rightarrow>
          \<lparr>ui = st\<lparr>metrics := d\<rparr>,
           trace = [Get (API_BASE @ lit ''/metrics'')], settled = Fulfilled\<rparr>
      | _ \<Rightarrow>
          \<lparr>ui = st,
           trace = [Get (API_BASE @ lit ''/metrics'')], settled = Rejected\<rparr>)"

subsection \<open>The check handler\<close>

text \<open>The replies the backend gives to the requests one run of \<^verbatim>\<open>handleCheck\<close> can make.\<close>

record env =
  post_reply :: "check_record list reply"
  history_reply :: "check_record list reply"
  metrics_reply :: "metrics_summary list reply"

text \<open>\<^verbatim>\<open>urls.split('\n').map(u => u.trim()).filter(Boolean)\<close>: a string is truthy when not empty.\<close>

definition urlList :: "jsstring \<Rightarrow> jsstring list" where
  "urlList text = filter (\<lambda>u. u \<noteq> []) (map trim (split_on 0x0A text))"

text \<open>The message the \<^verbatim>\<open>catch\<close> block builds from the rejection of the POST.\<close>

definition errorMessage :: "'a reply \<Rightarrow> jsstring" where
  "errorMessage r =
     lit ''Error checking URLs.'' @
     (case r of
        ErrorResponse code body \<Rightarrow>
          lit ''\<newline>Status: '' @ decimal code @ lit ''\<newline>'' @ body
      | NoResponse \<Rightarrow> lit ''\<newline>No response from backend. Is it running?''
      | SetupError m \<Rightarrow> lit ''\<newline>'' @ m
      | Resolved _ \<Rightarrow> [])"

text \<open>
  \<^verbatim>\<open>handleCheck\<close>, run until every promise it started has settled. The two fetches after a
  resolved POST are not awaited: their rejections are lost, and \<^verbatim>\<open>setLoading(false)\<close> does
  not wait for them (it writes another cell, so the final state is the same).
\<close>

definition handleCheck :: "app_state \<Rightarrow> env \<Rightarrow> outcome" where
  "handleCheck st e =
     (let st1 = st\<lparr>loading := True\<rparr>;
          us = urlList (urls st1)
      in if length us = 0 then
           \<lparr>ui = st1\<lparr>loading := False\<rparr>,
            trace = [Alert (lit ''Please enter at least one valid URL.'')],
            settled = Fulfilled\<rparr>
         else
           (case post_reply e of
              Resolved d \<Rightarrow>
                (let h = fetchHistory (st1\<lparr>results := d\<rparr>) (history_reply e);
                     m = fetchMetrics (ui h) (metrics_reply e)
                 in \<lparr>ui = (ui m)\<lparr>loading := False\<rparr>,
                     trace = Post (API_BASE @ lit ''/check_urls'') us # trace h @ trace m,
                     settled = Fulfilled\<rparr>)
            | err \<Rightarrow>
                \<lparr>ui = st1\<lparr>loading := False\<rparr>,
                 trace = [Post (API_BASE @ lit ''/check_urls'') us, Alert (errorMessage err)],
                 settled = Fulfilled\<rparr>))"

subsection \<open>The trend of one url\<close>

text \<open>
  \<^verbatim>\<open>encodeURIComponent\<close> (ECMAScript's Encode with the unreserved set of letters, digits and
  \<^verbatim>\<open>-_.!~*'()\<close>): an unreserved code unit is kept, any other code point is written as the
  percent-escaped octets of its UTF-8 form, and an unpaired surrogate raises URIError
  (\<open>None\<close>).
\<close>

definition uriUnreserved :: "16 word \<Rightarrow> bool" where
  "uriUnreserved c \<longleftrightarrow>
     (0x41 \<le> c \<and> c \<le> 0x5A) \<or> (0x61 \<le> c \<and> c \<le> 0x7A) \<or> (0x30 \<le> c \<and> c \<le> 0x39)
     \<or> c \<in> set [0x2D, 0x5F, 0x2E, 0x21, 0x7E, 0x2A, 0x27, 0x28, 0x29]"

definition isLeadSurrogate :: "16 word \<Rightarrow> bool" where
  "isLeadSurrogate c \<longleftrightarrow> 0xD800 \<le> c \<and> c \<le> 0xDBFF"

definition isTrailSurrogate :: "16 word \<Rightarrow> bool" where
  "isTrailSurrogate c \<longleftrightarrow> 0xDC00 \<le> c \<and> c \<le> 0xDFFF"

definition hexDigit :: "nat \<Rightarrow> 16 word" where
  "hexDigit n = (if n < 10 then of_nat (48 + n) else of_nat (55 + n))"

definition percentOctet :: "nat \<Rightarrow> jsstring" where
  "percentOctet b = [0x25, hexDigit (b div 16), hexDigit (b mod 16)]"

definition utf8 :: "nat \<Rightarrow> nat list" where
  "utf8 cp =
     (if cp < 0x80 then [cp]
      else if cp < 0x800 then [0xC0 + cp div 64, 0x80 + cp mod 64]
      else if cp < 0x10000 then
        [0xE0 + cp div 4096, 0x80 + cp div 64 mod 64, 0x80 + cp mod 64]
      else
        [0xF0 + cp div 262144, 0x80 + cp div 4096 mod 64, 0x80 + cp div 64 mod 64,
         0x80 + cp mod 64])"

definition percentEncode :: "nat \<Rightarrow> jsstring" where
  "percentEncode cp = concat (map percentOctet (utf8 cp))"

fun encodeURIComponent :: "jsstring \<Rightarrow> jsstring option" where
  "encodeURIComponent [] = Some []"
| "encodeURIComponent (c # cs) =
     (if uriUnreserved c then map_option ((#) c) (encodeURIComponent cs)
      else if isLeadSurrogate c then
        (case cs of
           [] \<Rightarrow> None
         | d # ds \<Rightarrow>
             if isTrailSurrogate d then
               map_option
                 ((@) (percentEncode
                         (0x10000 + (unat c - 0xD800) * 0x400 + (unat d - 0xDC00))))
                 (encodeURIComponent ds)
             else None)
      else if isTrailSurrogate c then None
      else map_option ((@) (percentEncode (unat c))) (encodeURIComponent cs))"

text \<open>A string with no unpaired surrogate (\<^verbatim>\<open>String.prototype.isWellFormed\<close>).\<close>

fun wellFormed :: "jsstring \<Rightarrow> bool" where
  "wellFormed [] = True"
| "wellFormed [c] = (\<not> isLeadSurrogate c \<and> \<not> isTrailSurrogate c)"
| "wellFormed (c # d # ds) =
     (if isLeadSurrogate c then isTrailSurrogate d \<and> wellFormed ds
      else \<not> isTrailSurrogate c \<and> wellFormed (d # ds))"

text \<open>
  \<^verbatim>\<open>fetchTrendData\<close>: nothing for a falsy (empty) url; the URIError of the encoder is raised
  before the request is made.
\<close>

definition fetchTrendData :: "app_state \<Rightarrow> jsstring \<Rightarrow> check_record list reply \<Rightarrow> outcome" where
  "fetchTrendData st u r =
     (if u = [] then \<lparr>ui = st, trace = [], settled = Fulfilled\<rparr>
      else
        (case encodeURIComponent u of
           None \<Rightarrow> \<lparr>ui = st, trace = [], settled = Rejected\<rparr>
         | Some q \<Rightarrow>
             (case r of
                Resolved d \<Rightarrow>
                  \<lparr>ui = st\<lparr>trendData := d\<rparr>,
                   trace = [Get (API_BASE @ lit ''/history_by_url?url='' @ q @ lit ''&limit=30'')],
                   settled = Fulfilled\<rparr>
              | _ \<Rightarrow>
                  \<lparr>ui = st,
                   trace = [Get (API_BASE @ lit ''/history_by_url?url='' @ q @ lit ''&limit=30'')],
                   settled = Rejected\<rparr>)))"

subsection \<open>The monitoring status\<close>

text \<open>
  \<^verbatim>\<open>fetchStatus\<close> of the polling effect: the \<^verbatim>\<open>catch\<close> block writes the literal
  \<^verbatim>\<open>{ last_run: null, next_run: null, email_alerts: false }\<close> and swallows the error.
\<close>

definition fetchStatus :: "app_state \<Rightarrow> monitor_status reply \<Rightarrow> outcome" where
  "fetchStatus st r =
     (case r of
        Resolved d \<Rightarrow>
          \<lparr>ui = st\<lparr>monitorStatus := d\<rparr>,
           trace = [Get (API_BASE @ lit ''/schedule/status'')], settled = Fulfilled\<rparr>
      | _ \<Rightarrow>
          \<lparr>ui = st\<lparr>monitorStatus :=
                  \<lparr>last_run = None, next_run = None, email_alerts = False\<rparr>\<rparr>,
           trace = [Get (API_BASE @ lit ''/schedule/status'')], settled = Fulfilled\<rparr>)"

subsection \<open>The trend chart\<close>

text \<open>
  A number is truthy unless it is zero; \<^verbatim>\<open>null\<close> and \<^verbatim>\<open>undefined\<close> are falsy. So
  \<^verbatim>\<open>d.response_time || 0\<close> is the number when it is truthy, and 0 otherwise.
\<close>

definition truthy :: "rat option \<Rightarrow> bool" where
  "truthy v = (case v of None \<Rightarrow> False | Some x \<Rightarrow> x \<noteq> 0)"

definition orZero :: "rat option \<Rightarrow> rat" where
  "orZero v = (case v of None \<Rightarrow> 0 | Some x \<Rightarrow> if truthy v then x else 0)"

record chart_data =
  labels :: "jsstring list"
  responseTimeData :: "rat list"
  statusData :: "int list"

text \<open>
  \<^verbatim>\<open>chartData\<close>; the locale's rendering of the time of \<^verbatim>\<open>checked_at\<close> is the parameter
  \<open>toLocaleTimeString\<close>.
\<close>

definition chartData :: "(jsstring \<Rightarrow> jsstring) \<Rightarrow> app_state \<Rightarrow> chart_data" where
  "chartData toLocaleTimeString st =
     \<lparr>labels = map (\<lambda>d. toLocaleTimeString (checked_at d)) (trendData st),
      responseTimeData = map (\<lambda>d. orZero (response_time d)) (trendData st),
      statusData = map (\<lambda>d. if status d = lit ''UP'' then 1 else 0) (trendData st)\<rparr>"

subsection \<open>The cells of the result and history tables\<close>

text \<open>
  What a table cell renders: a text, a number, or the text \<^verbatim>\<open>x.toFixed(n)\<close> of a number.
  Both tables render a row with the same two expressions.
\<close>

datatype cell = Text jsstring | Number int | ToFixed rat nat

text \<open>\<^verbatim>\<open>row.status_code ?? '-'\<close>: the dash only for \<^verbatim>\<open>null\<close> and \<^verbatim>\<open>undefined\<close>.\<close>

definition statusCodeCell :: "check_record \<Rightarrow> cell" where
  "statusCodeCell row =
     (case status_code row of None \<Rightarrow> Text (lit ''-'') | Some c \<Rightarrow> Number c)"

text \<open>\<^verbatim>\<open>row.response_time ? row.response_time.toFixed(2) : '-'\<close>: the dash for every falsy value.\<close>

definition responseTimeCell :: "check_record \<Rightarrow> cell" where
  "responseTimeCell row =
     (case response_time row of
        None \<Rightarrow> Text (lit ''-'')
      | Some t \<Rightarrow> if truthy (response_time row) then ToFixed t 2 else Text (lit ''-''))"

subsection \<open>The metrics the backend serves\<close>

text \<open>
  Modelled from the spec: division, which the backend's metrics code (not among the
  sources) would fault on for a zero divisor. \<open>None\<close> is that division fault.
\<close>

definition divide_checked :: "rat \<Rightarrow> rat \<Rightarrow> rat option" where
  "divide_checked a b = (if b = 0 then None else Some (a / b))"

text \<open>
  Modelled from the spec: the MetricsSummary of one url, computed by the Metrics
  Aggregator (the backend's \<^verbatim>\<open>/metrics\<close> handler), which is not among the sources; they
  hold only the table that displays its rows. The spec's words: per url, \<open>total_checks\<close>,
  \<open>up_count\<close>, \<open>error_count\<close> (= total - up_count), \<open>up_percent\<close> = up_count /
  total_checks * 100 (0 if total_checks = 0, never a division fault), \<open>error_rate\<close> =
  100 - up_percent. The records counted are those of the history store for the url, and
  the up ones those whose status is \<^verbatim>\<open>UP\<close>.
\<close>

definition summary_of :: "check_record list \<Rightarrow> jsstring \<Rightarrow> metrics_summary option" where
  "summary_of store u =
     (let rows = filter (\<lambda>r. url r = u) store;
          total = length rows;
          up = length (filter (\<lambda>r. status r = lit ''UP'') rows);
          pct = (if total = 0 then Some 0
                 else map_option (\<lambda>q. q * 100) (divide_checked (of_nat up) (of_nat total)))
      in map_option
           (\<lambda>p. \<lparr>m_url = u, total_checks = total, up_count = up, up_percent = p,
                 error_count = total - up, error_rate = 100 - p\<rparr>)
           pct)"

text \<open>
  Modelled from the spec: \<^verbatim>\<open>summarize\<close> of the Metrics Aggregator (not among the sources),
  one entry per distinct url ever observed, computed by scanning the history store.
\<close>

definition summarize :: "check_record list \<Rightarrow> metrics_summary option list" where
  "summarize store = map (summary_of store) (remdups (map url store))"

subsection \<open>Example data\<close>

text \<open>
  The scenario of the spec: \<^verbatim>\<open>https://good.example\<close> answers 200 in 0.2 s, and
  \<^verbatim>\<open>https://bad.example\<close> times out.
\<close>

definition goodRecord :: check_record where
  "goodRecord =
     \<lparr>url = lit ''https://good.example'', status = lit ''UP'', status_code = Some 200,
      response_time = Some (1 / 5), checked_at = lit ''2025-01-01T10:00:00''\<rparr>"

definition badRecord :: check_record where
  "badRecord =
     \<lparr>url = lit ''https://bad.example'', status = lit ''DOWN'', status_code = None,
      response_time = None, checked_at = lit ''2025-01-01T10:00:03''\<rparr>"

definition exampleStore :: "check_record list" where
  "exampleStore =
     [goodRecord, badRecord,
      goodRecord\<lparr>status := lit ''DOWN'', status_code := None, response_time := None,
                  checked_at := lit ''2025-01-01T10:05:00''\<rparr>,
      goodRecord\<lparr>checked_at := lit ''2025-01-01T10:10:00''\<rparr>]"

definition exampleState :: app_state where
  "exampleState =
     initialState
       \<lparr>urls := lit ''https://good.example\<newline>https://bad.example'',
        results := [badRecord],
        history := [badRecord],
        trendData := [goodRecord, badRecord],
        monitorStatus :=
          \<lparr>last_run = Some (lit ''2025-01-01T10:00:00''),
           next_run = Some (lit ''2025-01-01T10:05:00''), email_alerts = True\<rparr>\<rparr>"

definition envResolved :: env where
  "envResolved =
     \<lparr>post_reply = Resolved [goodRecord, badRecord],
      history_reply = Resolved [badRecord, goodRecord, badRecord],
      metrics_reply = NoResponse\<rparr>"

definition envFailed :: env where
  "envFailed =
     \<lparr>post_reply = ErrorResponse 500 (lit ''null''),
      history_reply = Resolved [goodRecord],
      metrics_reply = Resolved []\<rparr>"

definition goodSummary :: metrics_summary where
  "goodSummary =
     \<lparr>m_url = lit ''https://good.example'', total_checks = 3, up_count = 2,
      up_percent = 200 / 3, error_count = 1, error_rate = 100 / 3\<rparr>"

definition emptySummary :: metrics_summary where
  "emptySummary =
     \<lparr>m_url = lit ''https://new.example'', total_checks = 0, up_count = 0,
      up_percent = 0, error_count = 0, error_rate = 100\<rparr>"

section \<open>Properties\<close>

subsection \<open>Trimming and the submitted url list\<close>

lemma dropWhile_rev_dropWhile:
  "dropWhile P (rev (dropWhile P (rev (dropWhile P s)))) =
   rev (dropWhile P (rev (dropWhile P s)))"
proof -
  define t where "t = dropWhile P s"
  define ys where "ys = dropWhile P (rev t)"
  have "rev t = takeWhile P (rev t) @ ys"
    by (simp add: ys_def)
  then have t_eq: "t = rev ys @ rev (takeWhile P (rev t))"
    by (metis rev_append rev_rev_ident)
  show ?thesis
  proof (cases "ys = []")
    case True
    then have "dropWhile P (rev (dropWhile P s)) = []"
      by (simp only: ys_def t_def)
    then show ?thesis by (simp only: rev.simps dropWhile.simps)
  next
    case False
    then have "t \<noteq> []" using t_eq by auto
    then have "\<not> P (hd t)" unfolding t_def by (rule hd_dropWhile)
    moreover have "hd t = hd (rev ys)"
      using t_eq False by (metis hd_append2 rev_is_Nil_conv)
    ultimately have "dropWhile P (rev ys) = rev ys"
      using False by (cases "rev ys") auto
    then show ?thesis by (simp add: ys_def t_def)
  qed
qed

lemma trim_idem: "trim (trim s) = trim s"
proof -
  have "trim (trim s) =
          rev (dropWhile isWhiteSpace
                (rev (rev (dropWhile isWhiteSpace (rev (dropWhile isWhiteSpace s))))))"
    unfolding trim_def by (simp only: dropWhile_rev_dropWhile)
  also have "\<dots> = trim s"
    by (simp add: trim_def dropWhile_idem)
  finally show ?thesis .
qed

lemma urlList_elem: "u \<in> set (urlList t) \<Longrightarrow> u \<noteq> [] \<and> trim u = u"
  by (auto simp: urlList_def trim_idem)

lemma urlList_blank: "(\<forall>l \<in> set (split_on 0x0A t). trim l = []) \<Longrightarrow> urlList t = []"
  by (auto simp: urlList_def filter_empty_conv)

lemma trace_fetchHistory:
  "trace (fetchHistory st r) = [Get (API_BASE @ lit ''/history?limit=20'')]"
  by (cases r) (simp_all add: fetchHistory_def)

lemma trace_fetchMetrics: "trace (fetchMetrics st r) = [Get (API_BASE @ lit ''/metrics'')]"
  by (cases r) (simp_all add: fetchMetrics_def)

lemma results_fetchHistory: "results (ui (fetchHistory st r)) = results st"
  by (cases r) (simp_all add: fetchHistory_def)

lemma results_fetchMetrics: "results (ui (fetchMetrics st r)) = results st"
  by (cases r) (simp_all add: fetchMetrics_def)

subsection \<open>The check handler\<close>

text \<open>
  C1: when every line of the input text is empty after trimming (the empty text
  included), \<^verbatim>\<open>handleCheck\<close> makes no request at all: its whole trace is the one alert that
  asks for a valid url, the loading flag ends false and no other cell changes.
\<close>

theorem handleCheck_blank_input:
  assumes "\<forall>l \<in> set (split_on 0x0A (urls st)). trim l = []"
  shows "handleCheck st e =
           \<lparr>ui = st\<lparr>loading := False\<rparr>,
            trace = [Alert (lit ''Please enter at least one valid URL.'')],
            settled = Fulfilled\<rparr>"
  using urlList_blank [OF assms] by (simp add: handleCheck_def)

theorem handleCheck_blank_input_witness:
  "map trim (split_on 0x0A [0x20, 0x09, 0x0A, 0x0A, 0xA0, 0x3000]) = [[], [], []] \<and>
   handleCheck (initialState\<lparr>urls := [0x20, 0x09, 0x0A, 0x0A, 0xA0, 0x3000], loading := True\<rparr>)
     \<lparr>post_reply = Resolved [], history_reply = Resolved [], metrics_reply = Resolved []\<rparr> =
     \<lparr>ui = initialState\<lparr>urls := [0x20, 0x09, 0x0A, 0x0A, 0xA0, 0x3000], loading := False\<rparr>,
      trace = [Alert (lit ''Please enter at least one valid URL.'')],
      settled = Fulfilled\<rparr> \<and>
   map trim (split_on 0x0A []) = [[]] \<and>
   trace (handleCheck initialState
     \<lparr>post_reply = Resolved [], history_reply = Resolved [], metrics_reply = Resolved []\<rparr>) =
     [Alert (lit ''Please enter at least one valid URL.'')]"
proof -
  have l: "map trim (split_on 0x0A [0x20, 0x09, 0x0A, 0x0A, 0xA0, 0x3000]) = [[], [], []]"
    by (simp add: trim_def isWhiteSpace_def)
  have h: "\<forall>l \<in> set (split_on 0x0A
             (urls (initialState\<lparr>urls := [0x20, 0x09, 0x0A, 0x0A, 0xA0, 0x3000],
                                 loading := True\<rparr>))). trim l = []"
    by (simp add: trim_def isWhiteSpace_def)
  have l0: "map trim (split_on 0x0A []) = [[]]"
    by (simp add: trim_def)
  have h0: "\<forall>l \<in> set (split_on 0x0A (urls initialState)). trim l = []"
    by (simp add: initialState_def trim_def)
  have a: "handleCheck
       (initialState\<lparr>urls := [0x20, 0x09, 0x0A, 0x0A, 0xA0, 0x3000], loading := True\<rparr>)
       \<lparr>post_reply = Resolved [], history_reply = Resolved [], metrics_reply = Resolved []\<rparr> =
     \<lparr>ui = initialState\<lparr>urls := [0x20, 0x09, 0x0A, 0x0A, 0xA0, 0x3000], loading := False\<rparr>,
      trace = [Alert (lit ''Please enter at least one valid URL.'')],
      settled = Fulfilled\<rparr>"
    using handleCheck_blank_input [OF h] by simp
  have b: "trace (handleCheck initialState
     \<lparr>post_reply = Resolved [], history_reply = Resolved [], metrics_reply = Resolved []\<rparr>) =
     [Alert (lit ''Please enter at least one valid URL.'')]"
    using handleCheck_blank_input [OF h0] by simp
  show ?thesis
    by (intro conjI) (rule l, rule a, rule l0, rule b)
qed

text \<open>
  C2: whatever the input text, every url of a list that \<^verbatim>\<open>handleCheck\<close> posts is a
  non-empty string that is its own trim.
\<close>

theorem handleCheck_submits_trimmed:
  assumes "Post ep us \<in> set (trace (handleCheck st e))" and "u \<in> set us"
  shows "u \<noteq> [] \<and> trim u = u"
proof -
  have "us = urlList (urls st)"
    using assms(1)
    by (cases "post_reply e")
      (auto simp: handleCheck_def Let_def trace_fetchHistory trace_fetchMetrics
            split: if_splits)
  with assms(2) show ?thesis by (simp add: urlList_elem)
qed

theorem handleCheck_submits_trimmed_witness:
  "trace (handleCheck (initialState\<lparr>urls := lit ''  https://a.example \<newline>\<newline> b c  ''\<rparr>)
     \<lparr>post_reply = NoResponse, history_reply = NoResponse, metrics_reply = NoResponse\<rparr>) =
     [Post (lit ''http://localhost:8000/check_urls'') [lit ''https://a.example'', lit ''b c''],
      Alert (lit ''Error checking URLs.\<newline>No response from backend. Is it running?'')] \<and>
   lit ''b c'' \<noteq> [] \<and> trim (lit ''b c'') = lit ''b c''"
proof -
  have t: "trace (handleCheck (initialState\<lparr>urls := lit ''  https://a.example \<newline>\<newline> b c  ''\<rparr>)
     \<lparr>post_reply = NoResponse, history_reply = NoResponse, metrics_reply = NoResponse\<rparr>) =
     [Post (lit ''http://localhost:8000/check_urls'') [lit ''https://a.example'', lit ''b c''],
      Alert (lit ''Error checking URLs.\<newline>No response from backend. Is it running?'')]"
    by code_simp
  have p: "Post (lit ''http://localhost:8000/check_urls'') [lit ''https://a.example'', lit ''b c'']
       \<in> set (trace (handleCheck (initialState\<lparr>urls := lit ''  https://a.example \<newline>\<newline> b c  ''\<rparr>)
     \<lparr>post_reply = NoResponse, history_reply = NoResponse, metrics_reply = NoResponse\<rparr>))"
    unfolding t by (rule list.set_intros(1))
  have m: "lit ''b c'' \<in> set [lit ''https://a.example'', lit ''b c'']"
    by (rule list.set_intros(2)) (rule list.set_intros(1))
  show ?thesis
    by (rule conjI [OF t handleCheck_submits_trimmed [OF p m]])
qed

text \<open>
  C4: when the url list is not empty and the POST resolves, the results cell ends as
  exactly the records of that reply, whatever it held before and however the two
  follow-up fetches settle.
\<close>

theorem handleCheck_success_results:
  assumes "urlList (urls st) \<noteq> []" and "post_reply e = Resolved d"
  shows "results (ui (handleCheck st e)) = d"
  using assms
  by (simp add: handleCheck_def Let_def results_fetchMetrics results_fetchHistory)

theorem handleCheck_success_results_witness:
  "results exampleState = [badRecord] \<and>
   urlList (urls exampleState) = [lit ''https://good.example'', lit ''https://bad.example''] \<and>
   results (ui (handleCheck exampleState envResolved)) = [goodRecord, badRecord]"
proof -
  have r: "results exampleState = [badRecord]"
    by (simp add: exampleState_def)
  have u: "urlList (urls exampleState) =
             [lit ''https://good.example'', lit ''https://bad.example'']"
    by code_simp
  have h1: "urlList (urls exampleState) \<noteq> []"
    unfolding u by (rule list.distinct(2))
  have h2: "post_reply envResolved = Resolved [goodRecord, badRecord]"
    by (simp add: envResolved_def)
  show ?thesis
    by (intro conjI) (rule r, rule u, rule handleCheck_success_results [OF h1 h2])
qed

text \<open>
  C8: when the url list is not empty and the POST is rejected (an error response, no
  response, or an error before sending), \<^verbatim>\<open>handleCheck\<close> ends in the state it started
  from with the loading flag false: results, history and metrics are untouched, no
  follow-up fetch is made, and one alert shows a message that starts with
  \<^verbatim>\<open>Error checking URLs.\<close>
\<close>

theorem handleCheck_failure_keeps_state:
  assumes "urlList (urls st) \<noteq> []" and "\<forall>d. post_reply e \<noteq> Resolved d"
  shows "ui (handleCheck st e) = st\<lparr>loading := False\<rparr> \<and>
         results (ui (handleCheck st e)) = results st \<and>
         history (ui (handleCheck st e)) = history st \<and>
         metrics (ui (handleCheck st e)) = metrics st \<and>
         loading (ui (handleCheck st e)) = False \<and>
         trace (handleCheck st e) =
           [Post (lit ''http://localhost:8000/check_urls'') (urlList (urls st)),
            Alert (errorMessage (post_reply e))] \<and>
         (\<exists>detail. errorMessage (post_reply e) = lit ''Error checking URLs.'' @ detail)"
proof -
  have ui: "ui (handleCheck st e) = st\<lparr>loading := False\<rparr>"
    using assms by (cases "post_reply e") (simp_all add: handleCheck_def)
  have tr: "trace (handleCheck st e) =
           [Post (lit ''http://localhost:8000/check_urls'') (urlList (urls st)),
            Alert (errorMessage (post_reply e))]"
    using assms
    by (cases "post_reply e") (simp_all add: handleCheck_def API_BASE_def lit_def)
  have msg: "\<exists>detail. errorMessage (post_reply e) = lit ''Error checking URLs.'' @ detail"
    by (simp add: errorMessage_def)
  show ?thesis
    using tr msg by (simp add: ui)
qed

theorem handleCheck_failure_keeps_state_witness:
  "results (ui (handleCheck exampleState envFailed)) = [badRecord] \<and>
   history (ui (handleCheck exampleState envFailed)) = [badRecord] \<and>
   metrics (ui (handleCheck exampleState envFailed)) = [] \<and>
   loading (ui (handleCheck exampleState envFailed)) = False \<and>
   trace (handleCheck exampleState envFailed) =
     [Post (lit ''http://localhost:8000/check_urls'')
        [lit ''https://good.example'', lit ''https://bad.example''],
      Alert (lit ''Error checking URLs.\<newline>Status: 500\<newline>null'')]"
proof -
  have u: "urlList (urls exampleState) =
             [lit ''https://good.example'', lit ''https://bad.example'']"
    by code_simp
  have h1: "urlList (urls exampleState) \<noteq> []"
    unfolding u by (rule list.distinct(2))
  have h2: "\<forall>d. post_reply envFailed \<noteq> Resolved d"
    by (simp add: envFailed_def)
  have m: "errorMessage (post_reply envFailed) =
             lit ''Error checking URLs.\<newline>Status: 500\<newline>null''"
    by code_simp
  note T = handleCheck_failure_keeps_state [OF h1 h2, unfolded u m]
  have r: "results exampleState = [badRecord]" "history exampleState = [badRecord]"
    "metrics exampleState = []"
    by (simp_all add: exampleState_def initialState_def)
  from T have
    "results (ui (handleCheck exampleState envFailed)) = results exampleState \<and>
     history (ui (handleCheck exampleState envFailed)) = history exampleState \<and>
     metrics (ui (handleCheck exampleState envFailed)) = metrics exampleState \<and>
     loading (ui (handleCheck exampleState envFailed)) = False \<and>
     trace (handleCheck exampleState envFailed) =
       [Post (lit ''http://localhost:8000/check_urls'')
          [lit ''https://good.example'', lit ''https://bad.example''],
        Alert (lit ''Error checking URLs.\<newline>Status: 500\<newline>null'')]"
    by (elim conjE) (intro conjI; assumption)
  then show ?thesis
    by (simp only: r)
qed

subsection \<open>History and trend requests\<close>

text \<open>
  C5: every run of \<^verbatim>\<open>fetchHistory\<close> makes exactly one request, a GET of
  \<^verbatim>\<open>http://localhost:8000/history?limit=20\<close>; a resolved reply replaces the history cell
  with its data, and a rejected one leaves the state as it was.
\<close>

theorem fetchHistory_limit_20:
  "trace (fetchHistory st r) = [Get (lit ''http://localhost:8000/history?limit=20'')] \<and>
   ui (fetchHistory st (Resolved d)) = st\<lparr>history := d\<rparr> \<and>
   ui (fetchHistory st (ErrorResponse code body)) = st \<and>
   ui (fetchHistory st NoResponse) = st \<and>
   ui (fetchHistory st (SetupError m)) = st"
  by (cases r) (simp_all add: fetchHistory_def API_BASE_def lit_def)

lemma unreserved_not_surrogate:
  "uriUnreserved c \<Longrightarrow> \<not> isLeadSurrogate c \<and> \<not> isTrailSurrogate c"
  unfolding uriUnreserved_def isLeadSurrogate_def isTrailSurrogate_def
  by (auto simp: word_le_nat_alt)

lemma lead_not_trail: "isLeadSurrogate c \<Longrightarrow> \<not> isTrailSurrogate c"
  unfolding isLeadSurrogate_def isTrailSurrogate_def
  by (auto simp: word_le_nat_alt)

lemma encode_wellFormed: "encodeURIComponent u \<noteq> None \<longleftrightarrow> wellFormed u"
proof (induction u rule: wellFormed.induct)
  case 1
  then show ?case by simp
next
  case (2 c)
  then show ?case
    using unreserved_not_surrogate [of c] by auto
next
  case (3 c d ds)
  then show ?case
    using unreserved_not_surrogate [of c] lead_not_trail [of c] by auto
qed

text \<open>
  C6, as the code has it: for a non-empty url with no unpaired surrogate,
  \<^verbatim>\<open>fetchTrendData\<close> makes exactly one request, a GET of the per-url history endpoint with
  the url percent-encoded and \<^verbatim>\<open>limit=30\<close>, and a resolved reply replaces the trend data
  with its data. For the empty url, and for a url with an unpaired surrogate (the
  encoder raises URIError), it makes no request and changes no cell.
\<close>

theorem fetchTrendData_request:
  "(u \<noteq> [] \<and> wellFormed u \<longrightarrow>
      (\<exists>q. encodeURIComponent u = Some q \<and>
           trace (fetchTrendData st u r) =
             [Get (lit ''http://localhost:8000/history_by_url?url='' @ q @ lit ''&limit=30'')] \<and>
           ui (fetchTrendData st u (Resolved d)) = st\<lparr>trendData := d\<rparr>)) \<and>
   (u = [] \<or> \<not> wellFormed u \<longrightarrow>
      trace (fetchTrendData st u r) = [] \<and> ui (fetchTrendData st u r) = st)"
proof (intro conjI impI)
  assume a: "u \<noteq> [] \<and> wellFormed u"
  then obtain q where q: "encodeURIComponent u = Some q"
    using encode_wellFormed [of u] by auto
  have "trace (fetchTrendData st u r) =
          [Get (lit ''http://localhost:8000/history_by_url?url='' @ q @ lit ''&limit=30'')]"
    using a q by (cases r) (simp_all add: fetchTrendData_def API_BASE_def lit_def)
  moreover have "ui (fetchTrendData st u (Resolved d)) = st\<lparr>trendData := d\<rparr>"
    using a q by (simp add: fetchTrendData_def)
  ultimately show "\<exists>q. encodeURIComponent u = Some q \<and>
           trace (fetchTrendData st u r) =
             [Get (lit ''http://localhost:8000/history_by_url?url='' @ q @ lit ''&limit=30'')] \<and>
           ui (fetchTrendData st u (Resolved d)) = st\<lparr>trendData := d\<rparr>"
    using q by simp
next
  assume "u = [] \<or> \<not> wellFormed u"
  then have "u = [] \<or> encodeURIComponent u = None"
    using encode_wellFormed [of u] by auto
  then show "trace (fetchTrendData st u r) = []"
    by (auto simp: fetchTrendData_def)
next
  assume "u = [] \<or> \<not> wellFormed u"
  then have "u = [] \<or> encodeURIComponent u = None"
    using encode_wellFormed [of u] by auto
  then show "ui (fetchTrendData st u r) = st"
    by (auto simp: fetchTrendData_def)
qed

theorem fetchTrendData_request_witness:
  "wellFormed (lit ''https://good.example/a b'') \<and>
   encodeURIComponent (lit ''https://good.example/a b'') =
     Some (lit ''https%3A%2F%2Fgood.example%2Fa%20b'') \<and>
   trace (fetchTrendData exampleState (lit ''https://good.example/a b'') NoResponse) =
     [Get (lit ''http://localhost:8000/history_by_url?url=https%3A%2F%2Fgood.example%2Fa%20b&limit=30'')] \<and>
   trendData (ui (fetchTrendData exampleState (lit ''https://good.example/a b'')
                    (Resolved [badRecord]))) = [badRecord] \<and>
   trace (fetchTrendData exampleState [] (Resolved [badRecord])) = []"
proof -
  have w: "wellFormed (lit ''https://good.example/a b'')"
    by code_simp
  have n: "lit ''https://good.example/a b'' \<noteq> []"
    by (simp add: lit_def)
  have c: "encodeURIComponent (lit ''https://good.example/a b'') =
             Some (lit ''https%3A%2F%2Fgood.example%2Fa%20b'')"
    by code_simp
  have j: "lit ''http://localhost:8000/history_by_url?url='' @
           lit ''https%3A%2F%2Fgood.example%2Fa%20b'' @ lit ''&limit=30'' =
           lit ''http://localhost:8000/history_by_url?url=https%3A%2F%2Fgood.example%2Fa%20b&limit=30''"
    by (simp add: lit_def)
  from fetchTrendData_request
         [of "lit ''https://good.example/a b''" exampleState NoResponse "[badRecord]"] n w
  obtain q where
    q: "encodeURIComponent (lit ''https://good.example/a b'') = Some q" and
    t: "trace (fetchTrendData exampleState (lit ''https://good.example/a b'') NoResponse) =
          [Get (lit ''http://localhost:8000/history_by_url?url='' @ q @ lit ''&limit=30'')]" and
    d: "ui (fetchTrendData exampleState (lit ''https://good.example/a b'')
              (Resolved [badRecord])) = exampleState\<lparr>trendData := [badRecord]\<rparr>"
    by blast
  from q c have q_eq: "q = lit ''https%3A%2F%2Fgood.example%2Fa%20b''"
    by simp
  have t': "trace (fetchTrendData exampleState (lit ''https://good.example/a b'') NoResponse) =
     [Get (lit ''http://localhost:8000/history_by_url?url=https%3A%2F%2Fgood.example%2Fa%20b&limit=30'')]"
    using t unfolding q_eq j .
  have d': "trendData (ui (fetchTrendData exampleState (lit ''https://good.example/a b'')
                    (Resolved [badRecord]))) = [badRecord]"
    unfolding d by simp
  have e: "trace (fetchTrendData exampleState [] (Resolved [badRecord])) = []"
    using fetchTrendData_request [of "[]" exampleState "Resolved [badRecord]"] by simp
  show ?thesis
    by (intro conjI) (rule w, rule c, rule t', rule d', rule e)
qed

text \<open>
  The url made of the one unpaired surrogate U+D800 is not empty, yet \<^verbatim>\<open>fetchTrendData\<close>
  makes no request for it, and the trend data is not replaced by the reply.
\<close>

theorem fetchTrendData_lone_surrogate:
  "[0xD800] \<noteq> ([] :: jsstring) \<and>
   trace (fetchTrendData exampleState [0xD800] (Resolved [goodRecord])) = [] \<and>
   trendData (ui (fetchTrendData exampleState [0xD800] (Resolved [goodRecord]))) =
     [goodRecord, badRecord]"
  by (simp add: fetchTrendData_def exampleState_def uriUnreserved_def isLeadSurrogate_def
        isTrailSurrogate_def)

subsection \<open>The monitoring status\<close>

text \<open>
  C9: when the schedule-status request is rejected, the monitoring status becomes
  \<^verbatim>\<open>{last_run: null, next_run: null, email_alerts: false}\<close>, which is the value of the
  initial state, whatever an earlier fetch had stored.
\<close>

theorem fetchStatus_failure_resets:
  assumes "\<forall>d. r \<noteq> Resolved d"
  shows "monitorStatus (ui (fetchStatus st r)) =
           \<lparr>last_run = None, next_run = None, email_alerts = False\<rparr> \<and>
         monitorStatus (ui (fetchStatus st r)) = monitorStatus initialState"
  using assms
  by (cases r) (simp_all add: fetchStatus_def initialState_def initialMonitorStatus_def)

theorem fetchStatus_failure_resets_witness:
  "monitorStatus exampleState =
     \<lparr>last_run = Some (lit ''2025-01-01T10:00:00''),
      next_run = Some (lit ''2025-01-01T10:05:00''), email_alerts = True\<rparr> \<and>
   monitorStatus (ui (fetchStatus exampleState NoResponse)) =
     \<lparr>last_run = None, next_run = None, email_alerts = False\<rparr> \<and>
   monitorStatus (ui (fetchStatus exampleState NoResponse)) = monitorStatus initialState"
proof -
  have h: "\<forall>d. (NoResponse :: monitor_status reply) \<noteq> Resolved d"
    by simp
  have s: "monitorStatus exampleState =
     \<lparr>last_run = Some (lit ''2025-01-01T10:00:00''),
      next_run = Some (lit ''2025-01-01T10:05:00''), email_alerts = True\<rparr>"
    by (simp add: exampleState_def)
  show ?thesis
    by (rule conjI [OF s fetchStatus_failure_resets [OF h]])
qed

subsection \<open>The trend chart and the table cells\<close>

lemma orZero_eq: "orZero v = (case v of None \<Rightarrow> 0 | Some x \<Rightarrow> x)"
  by (simp add: orZero_def truthy_def split: option.split)

text \<open>
  C10: for every record of the trend data, the status series holds 1 exactly when the
  status is \<^verbatim>\<open>UP\<close> and 0 exactly when it is anything else, and the response-time series
  holds the recorded response time when there is one and 0 when there is none; both
  series have one value per record.
\<close>

theorem chartData_series:
  assumes "i < length (trendData st)"
  shows "(statusData (chartData f st) ! i = 1 \<longleftrightarrow> status (trendData st ! i) = lit ''UP'') \<and>
         (statusData (chartData f st) ! i = 0 \<longleftrightarrow> status (trendData st ! i) \<noteq> lit ''UP'') \<and>
         responseTimeData (chartData f st) ! i =
           (case response_time (trendData st ! i) of None \<Rightarrow> 0 | Some t \<Rightarrow> t) \<and>
         length (statusData (chartData f st)) = length (trendData st) \<and>
         length (responseTimeData (chartData f st)) = length (trendData st)"
  using assms by (simp add: chartData_def orZero_eq)

theorem chartData_series_witness:
  "trendData exampleState ! 1 = badRecord \<and>
   response_time badRecord = None \<and>
   status badRecord = lit ''DOWN'' \<and>
   statusData (chartData (\<lambda>t. t) exampleState) ! 1 = 0 \<and>
   responseTimeData (chartData (\<lambda>t. t) exampleState) ! 1 = 0"
proof -
  have td: "trendData exampleState = [goodRecord, badRecord]"
    by (simp add: exampleState_def)
  have h: "1 < length (trendData exampleState)"
    by (simp add: td)
  have b: "trendData exampleState ! 1 = badRecord"
    by (simp add: td)
  have rt: "response_time badRecord = None"
    by (simp add: badRecord_def)
  have s: "status badRecord = lit ''DOWN''"
    by (simp add: badRecord_def)
  have ne: "lit ''DOWN'' \<noteq> lit ''UP''"
    by (simp add: lit_def)
  note T = chartData_series [OF h, of "\<lambda>t. t", unfolded b rt s]
  from T ne have s0: "statusData (chartData (\<lambda>t. t) exampleState) ! 1 = 0"
    by blast
  from T have r0: "responseTimeData (chartData (\<lambda>t. t) exampleState) ! 1 = 0"
    by simp
  show ?thesis
    by (intro conjI) (rule b, rule rt, rule s, rule s0, rule r0)
qed

text \<open>
  C7, at a response time of zero: the Response Time cell shows the dash although the
  response time is present, while the Status Code cell shows a present code of 0 as the
  number. The first cell tests truthiness, the second only for \<^verbatim>\<open>null\<close> and \<^verbatim>\<open>undefined\<close>.
\<close>

theorem responseTimeCell_zero:
  "responseTimeCell (row\<lparr>response_time := Some 0\<rparr>) = Text (lit ''-'') \<and>
   statusCodeCell (row\<lparr>status_code := Some 0\<rparr>) = Number 0"
  by (simp add: responseTimeCell_def statusCodeCell_def truthy_def)

lemma responseTimeCell_dash:
  "responseTimeCell row = Text (lit ''-'') \<longleftrightarrow>
     response_time row = None \<or> response_time row = Some 0"
  by (simp add: responseTimeCell_def truthy_def split: option.split)

lemma statusCodeCell_number:
  "(\<exists>c. statusCodeCell row = Number c) \<longleftrightarrow> status_code row \<noteq> None"
  by (simp add: statusCodeCell_def split: option.split)

subsection \<open>The metrics summary\<close>

lemma summarize_elem: "x \<in> set (summarize store) \<Longrightarrow> \<exists>u. x = summary_of store u"
  by (auto simp: summarize_def)

text \<open>
  C3: for every history store and every url, the summary is computed without a division
  fault, its up count and error count add up to the total, its up percentage and error
  rate add up to 100 when there is at least one check, and its up percentage is 0 when
  there is none.
\<close>

theorem summary_of_invariant:
  "\<exists>s. summary_of store u = Some s \<and>
        up_count s + error_count s = total_checks s \<and>
        (0 < total_checks s \<longrightarrow> up_percent s + error_rate s = 100) \<and>
        (total_checks s = 0 \<longrightarrow> up_percent s = 0)"
proof -
  define rows where "rows = filter (\<lambda>r. url r = u) store"
  have le: "length (filter (\<lambda>r. status r = lit ''UP'') rows) \<le> length rows"
    by (rule length_filter_le)
  show ?thesis
  proof (cases "length rows = 0")
    case True
    then show ?thesis
      by (simp add: summary_of_def rows_def)
  next
    case False
    then show ?thesis
      using le by (simp add: summary_of_def Let_def divide_checked_def rows_def [symmetric])
  qed
qed

theorem summary_of_invariant_witness:
  "summary_of exampleStore (lit ''https://good.example'') = Some goodSummary \<and>
   0 < total_checks goodSummary \<and>
   up_count goodSummary + error_count goodSummary = total_checks goodSummary \<and>
   up_percent goodSummary + error_rate goodSummary = 100 \<and>
   summary_of exampleStore (lit ''https://new.example'') = Some emptySummary \<and>
   total_checks emptySummary = 0 \<and>
   up_percent emptySummary = 0"
proof -
  have a: "summary_of exampleStore (lit ''https://good.example'') = Some goodSummary"
    by code_simp
  have b: "summary_of exampleStore (lit ''https://new.example'') = Some emptySummary"
    by code_simp
  have pos: "0 < total_checks goodSummary"
    by (simp add: goodSummary_def)
  have zero: "total_checks emptySummary = 0"
    by (simp add: emptySummary_def)
  from summary_of_invariant [of exampleStore "lit ''https://good.example''"] a pos
  have c: "up_count goodSummary + error_count goodSummary = total_checks goodSummary"
    and d: "up_percent goodSummary + error_rate goodSummary = 100"
    by auto
  from summary_of_invariant [of exampleStore "lit ''https://new.example''"] b zero
  have e: "up_percent emptySummary = 0"
    by auto
  show ?thesis
    by (intro conjI) (rule a, rule pos, rule c, rule d, rule b, rule zero, rule e)
qed

end
